theory Spec2Isabelle
  imports Main "HOL-Library.Word"
begin

section \<open>Data model\<close>

text \<open>
  Go's \<open>int\<close> is a 64-bit two's complement integer on the platforms the server is built
  for; \<open>int64\<close> and \<open>int32\<close> have their own widths.  Comparisons of Go integers are
  the signed ones (\<open><s\<close>, \<open>\<le>s\<close>); \<open>+\<close>, \<open>-\<close> and unary minus wrap around.
\<close>

type_synonym go_int = "64 word"
type_synonym go_int64 = "64 word"
type_synonym go_int32 = "32 word"

text \<open>The struct \<open>Token\<close> (one row of the tokens table).  The field \<open>Id\<close> is
  written \<open>Id_tok\<close>, since \<open>Id\<close> is the identity relation of HOL.\<close>

record Token =
  Id_tok :: go_int
  UserId :: go_int
  Key :: string
  Status :: go_int
  Name :: string
  CreatedTime :: go_int64
  AccessedTime :: go_int64
  ExpiredTime :: go_int64
  RemainQuota :: go_int
  UnlimitedQuota :: bool
  UsedQuota :: go_int

text \<open>The zero value of the struct, \<open>Token{}\<close>.\<close>

definition zeroToken :: Token where
  "zeroToken = \<lparr>Id_tok = 0, UserId = 0, Key = [], Status = 0, Name = [],
     CreatedTime = 0, AccessedTime = 0, ExpiredTime = 0, RemainQuota = 0,
     UnlimitedQuota = False, UsedQuota = 0\<rparr>"

text \<open>
  Modelled from the spec: the account row is not in the files of the repository given here (the functions
  \<open>GetUserQuota\<close>, \<open>DecreaseUserQuota\<close> and \<open>IncreaseUserQuota\<close> live in another
  file).  The spec gives an account "a single remaining/used pair per owning account".
\<close>

record Account =
  account_id :: go_int
  remaining :: go_int
  used :: go_int

text \<open>
  The errors the functions return, one constructor per distinct error value of the source:
  \<^item> \<open>NoKey\<close>: "no token provided" (\<open>ValidateUserToken\<close>, empty key);
  \<^item> \<open>StatusUnavailable\<close>: "the status of the token is not usable";
  \<^item> \<open>Expired\<close>: "the token has expired";
  \<^item> \<open>Exhausted\<close>: "the quota of the token is used up";
  \<^item> \<open>InvalidToken\<close>: "invalid token" (the lookup by key failed);
  \<^item> \<open>EmptyId\<close>: "id is empty" (\<open>GetTokenById\<close> with id 0);
  \<^item> \<open>InvalidAmount\<close>: "quota must not be negative";
  \<^item> \<open>InsufficientCredentialQuota\<close>: "token quota is not enough";
  \<^item> \<open>InsufficientAccountQuota\<close>: "user quota is not enough";
  \<^item> \<open>NotFound\<close>: the store's record-not-found error;
  \<^item> \<open>StoreError\<close>: any other error of the store (a transient failure).
\<close>

datatype error =
    NoKey | StatusUnavailable | Expired | Exhausted | InvalidToken | EmptyId
  | InvalidAmount | InsufficientCredentialQuota | InsufficientAccountQuota
  | NotFound | StoreError

text \<open>A Go call either returns or panics (nil dereference, failed type assertion,
  send on a closed channel).\<close>

datatype 'a outcome = Returned 'a | Panic

text \<open>Lines written by \<open>common.SysError\<close> (a failed status update, a failed
  access-time update, a failed update of one entry of a batch, the number of failed
  entries of a batch), and the goroutines a call starts and does
  not wait for (the low-balance e-mail of \<open>PreConsumeTokenQuota\<close>, with its
  \<open>noMoreQuota\<close> flag and the quota it reports; the access-time update of
  \<open>ValidateUserToken\<close>).\<close>

datatype logline =
    FailedUpdateStatus error | FailedUpdateToken error
  | UpdateTokenFail Token error | BatchConsumeFail nat

datatype task = SendQuotaMail go_int bool go_int | TouchAccessed Token

text \<open>
  The world a call runs in: the two tables of the store, the outcomes of the store calls
  still to come (\<open>True\<close>: the call fails with a store error; an exhausted script means no
  further failure), the system log and the goroutines started so far.
\<close>

record world =
  token_table :: "Token list"
  account_table :: "Account list"
  faults :: "bool list"
  syslog :: "logline list"
  spawned :: "task list"

section \<open>Store adapter\<close>

text \<open>One round trip to the store: it takes the next outcome of the script.\<close>

definition db_call :: "world \<Rightarrow> bool \<times> world" where
  "db_call w = (case faults w of [] \<Rightarrow> (False, w) | b # bs \<Rightarrow> (b, w\<lparr>faults := bs\<rparr>))"

text \<open>\<open>GetTokenById\<close>: a nil pointer and an error for id 0; otherwise a pointer to a
  token that is \<open>Token{Id: id}\<close> unless the row was found and scanned into it.\<close>

definition GetTokenById :: "go_int \<Rightarrow> world \<Rightarrow> (Token option \<times> error option) \<times> world" where
  "GetTokenById id0 w =
     (if id0 = 0 then ((None, Some EmptyId), w)
      else
        let (failed, w1) = db_call w;
            token = zeroToken\<lparr>Id_tok := id0\<rparr>
        in if failed then ((Some token, Some StoreError), w1)
           else (case find (\<lambda>t. Id_tok t = id0) (token_table w1) of
                   None \<Rightarrow> ((Some token, Some NotFound), w1)
                 | Some row \<Rightarrow> ((Some row, None), w1)))"

text \<open>\<open>SelectUpdate\<close>: writes the columns \<open>accessed_time\<close> and \<open>status\<close> of the row
  with the token's primary key.\<close>

definition SelectUpdate :: "Token \<Rightarrow> world \<Rightarrow> error option \<times> world" where
  "SelectUpdate token w =
     (let (failed, w1) = db_call w
      in if failed then (Some StoreError, w1)
         else (None, w1\<lparr>token_table :=
                 map (\<lambda>t. if Id_tok t = Id_tok token
                          then t\<lparr>AccessedTime := AccessedTime token, Status := Status token\<rparr>
                          else t) (token_table w1)\<rparr>))"

text \<open>\<open>IncreaseTokenQuota\<close> and \<open>DecreaseTokenQuota\<close>: a relative update of the two
  counters of every row with the given id (none, when there is no such row: the update
  then succeeds and changes nothing).\<close>

definition IncreaseTokenQuota :: "go_int \<Rightarrow> go_int \<Rightarrow> world \<Rightarrow> error option \<times> world" where
  "IncreaseTokenQuota id0 quota w =
     (if quota <s 0 then (Some InvalidAmount, w)
      else
        let (failed, w1) = db_call w
        in if failed then (Some StoreError, w1)
           else (None, w1\<lparr>token_table :=
                   map (\<lambda>t. if Id_tok t = id0
                            then t\<lparr>RemainQuota := RemainQuota t + quota,
                                   UsedQuota := UsedQuota t - quota\<rparr>
                            else t) (token_table w1)\<rparr>))"

definition DecreaseTokenQuota :: "go_int \<Rightarrow> go_int \<Rightarrow> world \<Rightarrow> error option \<times> world" where
  "DecreaseTokenQuota id0 quota w =
     (if quota <s 0 then (Some InvalidAmount, w)
      else
        let (failed, w1) = db_call w
        in if failed then (Some StoreError, w1)
           else (None, w1\<lparr>token_table :=
                   map (\<lambda>t. if Id_tok t = id0
                            then t\<lparr>RemainQuota := RemainQuota t - quota,
                                   UsedQuota := UsedQuota t + quota\<rparr>
                            else t) (token_table w1)\<rparr>))"

text \<open>
  Modelled from the spec: \<open>GetUserQuota\<close>, \<open>DecreaseUserQuota\<close> and
  \<open>IncreaseUserQuota\<close> are called by the source but defined in a file that is not
  given.  The spec's store adapter gives \<open>GetAccountQuota(accountId) -> (remaining, used)
  | NotFound\<close> and an atomic relative update of the account's remaining/used pair ("a
  relative decrement of estimatedCost to the account's remaining/used pair"), which
  fails only with a store error.
\<close>

definition GetUserQuota :: "go_int \<Rightarrow> world \<Rightarrow> (go_int \<times> error option) \<times> world" where
  "GetUserQuota id0 w =
     (let (failed, w1) = db_call w
      in if failed then ((0, Some StoreError), w1)
         else (case find (\<lambda>a. account_id a = id0) (account_table w1) of
                 None \<Rightarrow> ((0, Some NotFound), w1)
               | Some a \<Rightarrow> ((remaining a, None), w1)))"

text \<open>Modelled from the spec: \<open>DecreaseUserQuota\<close>, the relative decrement of the
  account's remaining/used pair (remaining goes down, used goes up); an update that
  matches no row succeeds and changes nothing, as the updates of the source do.\<close>

definition DecreaseUserQuota :: "go_int \<Rightarrow> go_int \<Rightarrow> world \<Rightarrow> error option \<times> world" where
  "DecreaseUserQuota id0 quota w =
     (let (failed, w1) = db_call w
      in if failed then (Some StoreError, w1)
         else (None, w1\<lparr>account_table :=
                 map (\<lambda>a. if account_id a = id0
                          then a\<lparr>remaining := remaining a - quota, used := used a + quota\<rparr>
                          else a) (account_table w1)\<rparr>))"

text \<open>Modelled from the spec: \<open>IncreaseUserQuota\<close>, the inverse relative update (a
  credit).\<close>

definition IncreaseUserQuota :: "go_int \<Rightarrow> go_int \<Rightarrow> world \<Rightarrow> error option \<times> world" where
  "IncreaseUserQuota id0 quota w =
     (let (failed, w1) = db_call w
      in if failed then (Some StoreError, w1)
         else (None, w1\<lparr>account_table :=
                 map (\<lambda>a. if account_id a = id0
                          then a\<lparr>remaining := remaining a + quota, used := used a - quota\<rparr>
                          else a) (account_table w1)\<rparr>))"

section \<open>ConsumptionGuard\<close>

text \<open>
  \<open>PreConsumeTokenQuota\<close>.  The constant \<open>common.QuotaRemindThreshold\<close> is not in the
  source at hand and is the parameter \<open>thr\<close>.  The goroutine that sends the low-balance
  e-mail is recorded as started; the call does not wait for it.
\<close>

definition PreConsumeTokenQuota ::
  "go_int \<Rightarrow> go_int \<Rightarrow> go_int \<Rightarrow> world \<Rightarrow> error option outcome \<times> world" where
  "PreConsumeTokenQuota thr tokenId quota w =
     (if quota <s 0 then (Returned (Some InvalidAmount), w)
      else
        (case GetTokenById tokenId w of
           ((tokenp, Some e), w1) \<Rightarrow> (Returned (Some e), w1)
         | ((None, None), w1) \<Rightarrow> (Panic, w1)
         | ((Some token, None), w1) \<Rightarrow>
             if \<not> UnlimitedQuota token \<and> RemainQuota token <s quota
             then (Returned (Some InsufficientCredentialQuota), w1)
             else
               (case GetUserQuota (UserId token) w1 of
                  ((userQuota, Some e), w2) \<Rightarrow> (Returned (Some e), w2)
                | ((userQuota, None), w2) \<Rightarrow>
                    if userQuota <s quota
                    then (Returned (Some InsufficientAccountQuota), w2)
                    else
                      (let quotaTooLow = (thr \<le>s userQuota \<and> userQuota - quota <s thr);
                           noMoreQuota = (userQuota - quota \<le>s 0);
                           w3 = (if quotaTooLow \<or> noMoreQuota
                                 then w2\<lparr>spawned := spawned w2 @
                                         [SendQuotaMail (UserId token) noMoreQuota userQuota]\<rparr>
                                 else w2)
                       in (if \<not> UnlimitedQuota token
                           then (case DecreaseTokenQuota tokenId quota w3 of
                                   (Some e, w4) \<Rightarrow> (Returned (Some e), w4)
                                 | (None, w4) \<Rightarrow>
                                     (case DecreaseUserQuota (UserId token) quota w4 of
                                        (err, w5) \<Rightarrow> (Returned err, w5)))
                           else (case DecreaseUserQuota (UserId token) quota w3 of
                                   (err, w5) \<Rightarrow> (Returned err, w5)))))))"

text \<open>
  \<open>PostConsumeTokenQuota\<close>.  The error of the lookup is overwritten by the account
  update, so only the pointer matters: it is nil for id 0, and reading \<open>token.UserId\<close>
  through a nil pointer panics.
\<close>

definition PostConsumeTokenQuota ::
  "go_int \<Rightarrow> go_int \<Rightarrow> world \<Rightarrow> error option outcome \<times> world" where
  "PostConsumeTokenQuota tokenId quota w =
     (case GetTokenById tokenId w of
        ((None, err0), w1) \<Rightarrow> (Panic, w1)
      | ((Some token, err0), w1) \<Rightarrow>
          (case (if 0 <s quota then DecreaseUserQuota (UserId token) quota w1
                 else IncreaseUserQuota (UserId token) (- quota) w1) of
             (Some e, w2) \<Rightarrow> (Returned (Some e), w2)
           | (None, w2) \<Rightarrow>
               if \<not> UnlimitedQuota token
               then (case (if 0 <s quota then DecreaseTokenQuota tokenId quota w2
                           else IncreaseTokenQuota tokenId (- quota) w2) of
                       (Some e, w3) \<Rightarrow> (Returned (Some e), w3)
                     | (None, w3) \<Rightarrow> (Returned None, w3))
               else (Returned None, w2)))"


section \<open>Validation\<close>

text \<open>
  Modelled from the spec: the status constants of package \<open>common\<close> are not in the
  source at hand.  The spec enumerates the statuses as Enabled, Disabled, Expired,
  Exhausted; the column's default, 1, is the status of a usable token.
\<close>

definition TokenStatusEnabled :: go_int where "TokenStatusEnabled = 1"
text \<open>Modelled from the spec: the status Disabled.\<close>

definition TokenStatusDisabled :: go_int where "TokenStatusDisabled = 2"
text \<open>Modelled from the spec: the status Expired.\<close>

definition TokenStatusExpired :: go_int where "TokenStatusExpired = 3"
text \<open>Modelled from the spec: the status Exhausted.\<close>

definition TokenStatusExhausted :: go_int where "TokenStatusExhausted = 4"

text \<open>
  Modelled from the spec: \<open>CacheGetTokenByKey\<close> is defined in a file that is not at
  hand.  The spec's store adapter looks a credential up and answers with the
  credential or with NotFound; the lookup is by the unique key string.
\<close>

definition CacheGetTokenByKey :: "string \<Rightarrow> world \<Rightarrow> (Token option \<times> error option) \<times> world" where
  "CacheGetTokenByKey key w =
     (let (failed, w1) = db_call w
      in if failed then ((None, Some StoreError), w1)
         else (case find (\<lambda>t. Key t = key) (token_table w1) of
                 None \<Rightarrow> ((None, Some NotFound), w1)
               | Some row \<Rightarrow> ((Some row, None), w1)))"

text \<open>
  \<open>ValidateUserToken\<close>; \<open>now\<close> is what \<open>common.GetTimestamp()\<close> returns.  The
  goroutine that writes the access time is recorded as started.
\<close>

definition ValidateUserToken ::
  "go_int64 \<Rightarrow> string \<Rightarrow> world \<Rightarrow> (Token option \<times> error option) outcome \<times> world" where
  "ValidateUserToken now key w =
     (if key = [] then (Returned (None, Some NoKey), w)
      else
        (case CacheGetTokenByKey key w of
           ((tokenp, Some e), w1) \<Rightarrow> (Returned (None, Some InvalidToken), w1)
         | ((None, None), w1) \<Rightarrow> (Panic, w1)
         | ((Some token, None), w1) \<Rightarrow>
             if Status token \<noteq> TokenStatusEnabled
             then (Returned (None, Some StatusUnavailable), w1)
             else if ExpiredTime token \<noteq> - 1 \<and> ExpiredTime token <s now
             then (case SelectUpdate (token\<lparr>Status := TokenStatusExpired\<rparr>) w1 of
                     (Some e, w2) \<Rightarrow>
                       (Returned (None, Some Expired),
                        w2\<lparr>syslog := syslog w2 @ [FailedUpdateStatus e]\<rparr>)
                   | (None, w2) \<Rightarrow> (Returned (None, Some Expired), w2))
             else if \<not> UnlimitedQuota token \<and> RemainQuota token \<le>s 0
             then (case SelectUpdate (token\<lparr>Status := TokenStatusExhausted\<rparr>) w1 of
                     (Some e, w2) \<Rightarrow>
                       (Returned (None, Some Exhausted),
                        w2\<lparr>syslog := syslog w2 @ [FailedUpdateStatus e]\<rparr>)
                   | (None, w2) \<Rightarrow> (Returned (None, Some Exhausted), w2))
             else (Returned (Some token, None),
                   w1\<lparr>spawned := spawned w1 @ [TouchAccessed token]\<rparr>)))"

section \<open>DeltaAggregator and Flusher\<close>

text \<open>
  \<open>cachedTokenQuotas\<close> is a \<open>sync.Map\<close> from credential ids to values of type
  \<open>any\<close>.  The source stores pointers of two dynamic types in it: \<open>*int32\<close> (the
  consumer's \<open>new(int32)\<close>) and \<open>*int\<close> (the address of the local \<open>usedQuota\<close> of the
  ticker loop).  A cell is the pointer's type together with the integer it points to; no
  pointer is shared outside the map.  The map is an association list with distinct keys,
  whose order stands for the order in which \<open>Range\<close> happens to visit the entries.
\<close>

datatype cell = PInt32 go_int32 | PInt go_int

type_synonym quota_map = "(go_int \<times> cell) list"

definition Load :: "quota_map \<Rightarrow> go_int \<Rightarrow> cell option" where
  "Load m k = map_of m k"

fun Store :: "quota_map \<Rightarrow> go_int \<Rightarrow> cell \<Rightarrow> quota_map" where
  "Store [] k v = [(k, v)]"
| "Store ((k', v') # m) k v = (if k' = k then (k, v) # m else (k', v') # Store m k v)"

definition Delete :: "quota_map \<Rightarrow> go_int \<Rightarrow> quota_map" where
  "Delete m k = filter (\<lambda>(k', v). k' \<noteq> k) m"

text \<open>
  The body of the consumer loop, for one event taken from \<open>toCachedTokenQuotaChan\<close>.
  \<open>Load\<close> of an absent key returns the nil interface; the variable is not assigned
  again after \<open>Store\<close>, so the type assertion \<open>cachedTokenQuota.(*int32)\<close> is applied
  to nil and panics, as it does on a \<open>*int\<close>.  \<open>int32(x)\<close> keeps the low 32 bits and
  \<open>atomic.AddInt32\<close> wraps.
\<close>

definition record_delta :: "Token \<Rightarrow> quota_map \<Rightarrow> unit outcome \<times> quota_map" where
  "record_delta toCachedToken m =
     (case Load m (Id_tok toCachedToken) of
        None \<Rightarrow> (Panic, Store m (Id_tok toCachedToken) (PInt32 0))
      | Some (PInt32 v) \<Rightarrow>
          (Returned (),
           Store m (Id_tok toCachedToken) (PInt32 (v + ucast (UsedQuota toCachedToken))))
      | Some (PInt v) \<Rightarrow> (Panic, m))"

text \<open>The consumer goroutine on the events of the channel, in order; a panic ends it.\<close>

fun consumer :: "Token list \<Rightarrow> quota_map \<Rightarrow> unit outcome \<times> quota_map" where
  "consumer [] m = (Returned (), m)"
| "consumer (ev # evs) m =
     (case record_delta ev m of
        (Panic, m') \<Rightarrow> (Panic, m')
      | (Returned u, m') \<Rightarrow> consumer evs m')"

text \<open>
  The first half of the ticker loop: \<open>Range\<close> copies every cell into
  \<open>toUpdatedTokenQuotas\<close> (\<open>int(*value.(*int32))\<close> sign-extends, and the assertion
  panics on a \<open>*int\<close>), then every copied key is deleted.
\<close>

fun range_snapshot :: "quota_map \<Rightarrow> Token list \<Rightarrow> Token list outcome" where
  "range_snapshot [] toUpdatedTokenQuotas = Returned toUpdatedTokenQuotas"
| "range_snapshot ((key, PInt32 v) # m) toUpdatedTokenQuotas =
     range_snapshot m
       (toUpdatedTokenQuotas @ [zeroToken\<lparr>Id_tok := key, UsedQuota := scast v\<rparr>])"
| "range_snapshot ((key, PInt v) # m) toUpdatedTokenQuotas = Panic"

definition drain :: "quota_map \<Rightarrow> Token list outcome \<times> quota_map" where
  "drain m =
     (case range_snapshot m [] of
        Panic \<Rightarrow> (Panic, m)
      | Returned toUpdatedTokenQuotas \<Rightarrow>
          (Returned toUpdatedTokenQuotas,
           fold (\<lambda>token m'. Delete m' (Id_tok token)) toUpdatedTokenQuotas m))"

text \<open>The second half: every failed entry is stored under its id, as a pointer to the
  local variable \<open>usedQuota\<close> of type \<open>int\<close>.\<close>

definition requeue :: "Token list \<Rightarrow> quota_map \<Rightarrow> quota_map" where
  "requeue fail m =
     (if fail \<noteq> []
      then fold (\<lambda>token m'. Store m' (Id_tok token) (PInt (UsedQuota token))) fail m
      else m)"

text \<open>
  One tick of the flusher.  \<open>persist\<close> stands for the call of
  \<open>batchConsumeTokenQuota\<close>: it maps the drained entries to the ones reported as failed.
\<close>

definition flush_cycle ::
  "(Token list \<Rightarrow> Token list) \<Rightarrow> quota_map \<Rightarrow> unit outcome \<times> quota_map" where
  "flush_cycle persist m =
     (case drain m of
        (Panic, m1) \<Rightarrow> (Panic, m1)
      | (Returned toUpdatedTokenQuotas, m1) \<Rightarrow>
          (Returned (), requeue (persist toUpdatedTokenQuotas) m1))"

section \<open>BatchPersister\<close>

text \<open>
  \<open>batchConsumeTokenQuota\<close> runs three kinds of goroutines: the caller (main), the
  collector that appends what it receives from \<open>failChan\<close> to \<open>fail\<close> and then closes
  \<open>completeChan\<close>, and one worker per entry.  Each goroutine is a deterministic
  program; the scheduler picks which one takes the next step.  The model is the state
  of all of them and one step function per goroutine, \<open>None\<close> where the goroutine cannot
  move (it has ended, or it waits on a channel).

  The caller's program counter: at the head of the outer loop with index \<open>i\<close>; inside
  the inner loop, with the entries of \<open>tokens[i:j]\<close> still to visit; before
  \<open>close(failChan)\<close>; at \<open><-completeChan\<close>; returned, with the list it returned.  The
  source calls \<open>wg.Add\<close> and \<open>wg.Done\<close> and never \<open>wg.Wait\<close>, so the wait group
  blocks nobody and has no state here.
\<close>

datatype main_pc =
    Outer nat | Inner "Token list" nat | CloseFailChan | AwaitComplete | Done "Token list"

text \<open>A worker: before its store update; at the send \<open>failChan <- token\<close>; ended;
  crashed by the send on a closed channel.\<close>

datatype worker = Update Token | Send Token | Finished | Crashed

record batch_state =
  store :: world
  failChan :: "Token list"
  failChanClosed :: bool
  completeChanClosed :: bool
  fail :: "Token list"
  pc :: main_pc
  collectorEnded :: bool
  workers :: "worker list"

definition batch_init :: "world \<Rightarrow> batch_state" where
  "batch_init w = \<lparr>store = w, failChan = [], failChanClosed = False,
     completeChanClosed = False, fail = [], pc = Outer 0, collectorEnded = False,
     workers = []\<rparr>"

text \<open>The store update of one worker: the update that fits the sign of the delta, none
  for a delta of zero.\<close>

definition update_entry :: "Token \<Rightarrow> world \<Rightarrow> error option \<times> world" where
  "update_entry token w =
     (if 0 <s UsedQuota token then DecreaseTokenQuota (Id_tok token) (UsedQuota token) w
      else if UsedQuota token <s 0
      then IncreaseTokenQuota (Id_tok token) (- UsedQuota token) w
      else (None, w))"

text \<open>One step of the caller.  \<open>batch\<close> is 10; the deferred function logs the number
  of failures when the list it returns is not empty.\<close>

definition main_step :: "Token list \<Rightarrow> batch_state \<Rightarrow> batch_state option" where
  "main_step tokens s =
     (case pc s of
        Outer i \<Rightarrow>
          if i < length tokens
          then (let j = (if i + 10 > length tokens then length tokens else i + 10)
                in Some (s\<lparr>pc := Inner (take (j - i) (drop i tokens)) i\<rparr>))
          else Some (s\<lparr>pc := CloseFailChan\<rparr>)
      | Inner [] i \<Rightarrow> Some (s\<lparr>pc := Outer (i + 10)\<rparr>)
      | Inner (token # rest) i \<Rightarrow>
          Some (s\<lparr>workers := workers s @ [Update token], pc := Inner rest i\<rparr>)
      | CloseFailChan \<Rightarrow> Some (s\<lparr>failChanClosed := True, pc := AwaitComplete\<rparr>)
      | AwaitComplete \<Rightarrow>
          if completeChanClosed s
          then Some (s\<lparr>pc := Done (fail s),
                       store := (if fail s \<noteq> []
                                 then (store s)\<lparr>syslog := syslog (store s) @
                                        [BatchConsumeFail (length (fail s))]\<rparr>
                                 else store s)\<rparr>)
          else None
      | Done r \<Rightarrow> None)"

text \<open>One step of the collector: receive from \<open>failChan\<close> and append; when the channel
  is closed and empty, leave the loop and close \<open>completeChan\<close>.\<close>

definition collector_step :: "batch_state \<Rightarrow> batch_state option" where
  "collector_step s =
     (if collectorEnded s then None
      else (case failChan s of
              token # rest \<Rightarrow> Some (s\<lparr>failChan := rest, fail := fail s @ [token]\<rparr>)
            | [] \<Rightarrow>
                if failChanClosed s
                then Some (s\<lparr>collectorEnded := True, completeChanClosed := True\<rparr>)
                else None))"

text \<open>One step of worker \<open>k\<close>.  The channel has room for 10 tokens; a send on a closed
  channel panics.\<close>

definition worker_step :: "nat \<Rightarrow> batch_state \<Rightarrow> batch_state option" where
  "worker_step k s =
     (if k < length (workers s)
      then (case workers s ! k of
              Update token \<Rightarrow>
                (case update_entry token (store s) of
                   (None, w') \<Rightarrow> Some (s\<lparr>store := w', workers := (workers s)[k := Finished]\<rparr>)
                 | (Some e, w') \<Rightarrow>
                     Some (s\<lparr>store := w'\<lparr>syslog := syslog w' @ [UpdateTokenFail token e]\<rparr>,
                             workers := (workers s)[k := Send token]\<rparr>))
            | Send token \<Rightarrow>
                if failChanClosed s then Some (s\<lparr>workers := (workers s)[k := Crashed]\<rparr>)
                else if length (failChan s) < 10
                then Some (s\<lparr>failChan := failChan s @ [token],
                             workers := (workers s)[k := Finished]\<rparr>)
                else None
            | Finished \<Rightarrow> None
            | Crashed \<Rightarrow> None)
      else None)"

datatype goroutine = Main | Collector | Worker nat

fun step :: "Token list \<Rightarrow> goroutine \<Rightarrow> batch_state \<Rightarrow> batch_state option" where
  "step tokens Main s = main_step tokens s"
| "step tokens Collector s = collector_step s"
| "step tokens (Worker k) s = worker_step k s"

text \<open>A run under a schedule: the goroutines step in the order the schedule names them;
  \<open>None\<close> when the schedule names a goroutine that cannot move.\<close>

fun run :: "Token list \<Rightarrow> goroutine list \<Rightarrow> batch_state \<Rightarrow> batch_state option" where
  "run tokens [] s = Some s"
| "run tokens (g # gs) s =
     (case step tokens g s of None \<Rightarrow> None | Some s' \<Rightarrow> run tokens gs s')"


section \<open>Example data\<close>

text \<open>A credential with 1000 units left, owned by account 7, which has 5000 left; no
  store call fails.  An entry of a batch: credential 1, delta 5.\<close>

definition example_token :: Token where
  "example_token = zeroToken\<lparr>Id_tok := 1, UserId := 7, Key := ''sk-1'',
     Status := TokenStatusEnabled, ExpiredTime := - 1, RemainQuota := 1000\<rparr>"

definition example_account :: Account where
  "example_account = \<lparr>account_id = 7, remaining = 5000, used = 0\<rparr>"

definition example_world :: world where
  "example_world = \<lparr>token_table = [example_token], account_table = [example_account],
     faults = [], syslog = [], spawned = []\<rparr>"

definition example_entry :: Token where
  "example_entry = zeroToken\<lparr>Id_tok := 1, UsedQuota := 5\<rparr>"

section \<open>Auxiliary facts\<close>

lemmas example_defs = example_world_def example_token_def example_account_def
  example_entry_def zeroToken_def TokenStatusEnabled_def TokenStatusDisabled_def
  TokenStatusExpired_def TokenStatusExhausted_def

lemma find_map_key:
  assumes "\<And>x. k (f x) = k x"
  shows "find (\<lambda>x. k x = i) (map (\<lambda>x. if k x = j then f x else x) xs)
         = map_option (\<lambda>x. if k x = j then f x else x) (find (\<lambda>x. k x = i) xs)"
  by (induction xs) (auto simp: assms)

lemma find_SomeD: "find P xs = Some x \<Longrightarrow> P x"
  by (induction xs) (auto split: if_splits)

lemma db_call_fields [simp]:
  "token_table (snd (db_call w)) = token_table w"
  "account_table (snd (db_call w)) = account_table w"
  "syslog (snd (db_call w)) = syslog w"
  "spawned (snd (db_call w)) = spawned w"
  by (simp_all add: db_call_def split: list.splits)

lemma db_call_spawned_upd [simp]:
  "fst (db_call (w\<lparr>spawned := x\<rparr>)) = fst (db_call w)"
  "token_table (snd (db_call (w\<lparr>spawned := x\<rparr>))) = token_table w"
  "account_table (snd (db_call (w\<lparr>spawned := x\<rparr>))) = account_table w"
  "faults (snd (db_call (w\<lparr>spawned := x\<rparr>))) = faults (snd (db_call w))"
  by (simp_all add: db_call_def split: list.splits)


lemma db_call_ok: "faults w = [] \<Longrightarrow> \<not> fst (db_call w)"
  by (simp add: db_call_def)

lemma db_call_faults_nil: "faults w = [] \<Longrightarrow> faults (snd (db_call w)) = []"
  by (simp add: db_call_def)

text \<open>Each store operation, with the outcome of its round trip made explicit.\<close>

lemma GetTokenById_eq:
  "tokenId \<noteq> 0 \<Longrightarrow> GetTokenById tokenId w =
     (if fst (db_call w)
      then ((Some (zeroToken\<lparr>Id_tok := tokenId\<rparr>), Some StoreError), snd (db_call w))
      else (case find (\<lambda>t. Id_tok t = tokenId) (token_table w) of
              None \<Rightarrow> ((Some (zeroToken\<lparr>Id_tok := tokenId\<rparr>), Some NotFound), snd (db_call w))
            | Some row \<Rightarrow> ((Some row, None), snd (db_call w))))"
  by (simp add: GetTokenById_def Let_def case_prod_beta)

lemma GetUserQuota_eq:
  "GetUserQuota u w =
     (if fst (db_call w) then ((0, Some StoreError), snd (db_call w))
      else (case find (\<lambda>a. account_id a = u) (account_table w) of
              None \<Rightarrow> ((0, Some NotFound), snd (db_call w))
            | Some a \<Rightarrow> ((remaining a, None), snd (db_call w))))"
  by (simp add: GetUserQuota_def Let_def case_prod_beta)

lemma DecreaseUserQuota_eq:
  "DecreaseUserQuota u q w =
     (if fst (db_call w) then (Some StoreError, snd (db_call w))
      else (None, (snd (db_call w))\<lparr>account_table :=
              map (\<lambda>a. if account_id a = u
                        then a\<lparr>remaining := remaining a - q, used := used a + q\<rparr> else a)
                (account_table w)\<rparr>))"
  by (simp add: DecreaseUserQuota_def Let_def case_prod_beta)

lemma IncreaseUserQuota_eq:
  "IncreaseUserQuota u q w =
     (if fst (db_call w) then (Some StoreError, snd (db_call w))
      else (None, (snd (db_call w))\<lparr>account_table :=
              map (\<lambda>a. if account_id a = u
                        then a\<lparr>remaining := remaining a + q, used := used a - q\<rparr> else a)
                (account_table w)\<rparr>))"
  by (simp add: IncreaseUserQuota_def Let_def case_prod_beta)

lemma DecreaseTokenQuota_eq:
  "DecreaseTokenQuota i q w =
     (if q <s 0 then (Some InvalidAmount, w)
      else if fst (db_call w) then (Some StoreError, snd (db_call w))
      else (None, (snd (db_call w))\<lparr>token_table :=
              map (\<lambda>t. if Id_tok t = i
                        then t\<lparr>RemainQuota := RemainQuota t - q, UsedQuota := UsedQuota t + q\<rparr>
                        else t)
                (token_table w)\<rparr>))"
  by (simp add: DecreaseTokenQuota_def Let_def case_prod_beta)

lemma IncreaseTokenQuota_eq:
  "IncreaseTokenQuota i q w =
     (if q <s 0 then (Some InvalidAmount, w)
      else if fst (db_call w) then (Some StoreError, snd (db_call w))
      else (None, (snd (db_call w))\<lparr>token_table :=
              map (\<lambda>t. if Id_tok t = i
                        then t\<lparr>RemainQuota := RemainQuota t + q, UsedQuota := UsedQuota t - q\<rparr>
                        else t)
                (token_table w)\<rparr>))"
  by (simp add: IncreaseTokenQuota_def Let_def case_prod_beta)

lemmas store_eqs = GetTokenById_eq GetUserQuota_eq DecreaseUserQuota_eq IncreaseUserQuota_eq
  DecreaseTokenQuota_eq IncreaseTokenQuota_eq

lemmas store_defs = GetTokenById_def GetUserQuota_def DecreaseUserQuota_def
  IncreaseUserQuota_def DecreaseTokenQuota_def IncreaseTokenQuota_def SelectUpdate_def
  CacheGetTokenByKey_def db_call_def


section \<open>PreConsume\<close>




text \<open>
  C2: \<open>PreConsume\<close> fails with \<open>InvalidAmount\<close> when \<open>estimatedCost\<close> is negative,
  for every credential id and whatever the store holds, and the world is untouched.
  For a credential found under its non-zero id with its owning account in the store, it
  fails when the credential is not unlimited and has less than \<open>estimatedCost\<close> left, or
  when the account has less than \<open>estimatedCost\<close> left: it returns an error and both
  tables of the store are as before, whatever the store calls do; and when no store
  call fails and the cost is not negative, the error is
  \<open>InsufficientCredentialQuota\<close> in the first case and \<open>InsufficientAccountQuota\<close>
  otherwise (the credential is checked first).
\<close>

theorem PreConsume_rejects:
  "(quota <s 0 \<longrightarrow>
      PreConsumeTokenQuota thr tokenId quota w = (Returned (Some InvalidAmount), w))
   \<and> (tokenId \<noteq> 0
      \<and> find (\<lambda>t. Id_tok t = tokenId) (token_table w) = Some t
      \<and> find (\<lambda>a. account_id a = UserId t) (account_table w) = Some a
      \<and> ((\<not> UnlimitedQuota t \<and> RemainQuota t <s quota) \<or> remaining a <s quota) \<longrightarrow>
        (\<exists>e. fst (PreConsumeTokenQuota thr tokenId quota w) = Returned (Some e))
      \<and> token_table (snd (PreConsumeTokenQuota thr tokenId quota w)) = token_table w
      \<and> account_table (snd (PreConsumeTokenQuota thr tokenId quota w)) = account_table w
      \<and> (faults w = [] \<and> \<not> quota <s 0 \<longrightarrow>
            fst (PreConsumeTokenQuota thr tokenId quota w) =
              Returned (Some (if \<not> UnlimitedQuota t \<and> RemainQuota t <s quota
                              then InsufficientCredentialQuota
                              else InsufficientAccountQuota))))"
proof -
  have e: "faults w = [] \<Longrightarrow> \<not> fst (db_call w) \<and> \<not> fst (db_call (snd (db_call w)))"
    by (simp add: db_call_ok db_call_faults_nil)
  show ?thesis
    using e
    by (auto simp: PreConsumeTokenQuota_def GetTokenById_eq GetUserQuota_eq)
qed

text \<open>Witness for C2: a negative cost, a cost above the credential's 1000 (also when
  the lookup fails in the store), and a cost above the account's 5000 on an unlimited
  credential.\<close>

theorem PreConsume_rejects_witness:
  "PreConsumeTokenQuota 0 1 (- 1) example_world
     = (Returned (Some InvalidAmount), example_world)
   \<and> PreConsumeTokenQuota 0 1 1001 example_world
     = (Returned (Some InsufficientCredentialQuota), example_world)
   \<and> PreConsumeTokenQuota 0 1 1001 (example_world\<lparr>faults := [True]\<rparr>)
     = (Returned (Some StoreError), example_world)
   \<and> fst (PreConsumeTokenQuota 0 1 5001
        (example_world\<lparr>token_table := [example_token\<lparr>UnlimitedQuota := True\<rparr>]\<rparr>))
     = Returned (Some InsufficientAccountQuota)
   \<and> account_table (snd (PreConsumeTokenQuota 0 1 5001
        (example_world\<lparr>token_table := [example_token\<lparr>UnlimitedQuota := True\<rparr>]\<rparr>)))
     = [example_account]"
  using
    PreConsume_rejects [where quota = "- 1" and thr = 0 and tokenId = 1
      and w = example_world and t = example_token and a = example_account]
    PreConsume_rejects [where quota = 1001 and thr = 0 and tokenId = 1
      and w = example_world and t = example_token and a = example_account]
    PreConsume_rejects [where quota = 1001 and thr = 0 and tokenId = 1
      and w = "example_world\<lparr>faults := [True]\<rparr>" and t = example_token
      and a = example_account]
    PreConsume_rejects [where quota = 5001 and thr = 0 and tokenId = 1
      and w = "example_world\<lparr>token_table := [example_token\<lparr>UnlimitedQuota := True\<rparr>]\<rparr>"
      and t = "example_token\<lparr>UnlimitedQuota := True\<rparr>" and a = example_account]
  by (simp add: example_defs PreConsumeTokenQuota_def store_defs word_sless_alt)

text \<open>
  C3: for every credential with \<open>unlimited == true\<close> and every \<open>estimatedCost\<close>,
  whatever the credential's remaining value, \<open>PreConsume\<close> never fails with the
  credential-quota error and leaves the table of credentials as it was (the credential's
  decrement is skipped); when the account covers a non-negative cost and no store call
  fails, the call succeeds and the account's counters are adjusted by the cost.
\<close>

theorem PreConsume_unlimited:
  assumes "tokenId \<noteq> 0"
    and "find (\<lambda>t. Id_tok t = tokenId) (token_table w) = Some t"
    and "UnlimitedQuota t"
  shows "fst (PreConsumeTokenQuota thr tokenId quota w)
           \<noteq> Returned (Some InsufficientCredentialQuota)
       \<and> token_table (snd (PreConsumeTokenQuota thr tokenId quota w)) = token_table w
       \<and> (find (\<lambda>a. account_id a = UserId t) (account_table w) = Some a
            \<and> 0 \<le>s quota \<and> quota \<le>s remaining a \<and> faults w = [] \<longrightarrow>
          fst (PreConsumeTokenQuota thr tokenId quota w) = Returned None
          \<and> find (\<lambda>a. account_id a = UserId t)
               (account_table (snd (PreConsumeTokenQuota thr tokenId quota w)))
             = Some (a\<lparr>remaining := remaining a - quota, used := used a + quota\<rparr>))"
proof -
  have k: "find (\<lambda>a. account_id a = UserId t) (account_table w) = Some a
      \<Longrightarrow> account_id a = UserId t"
    by (auto dest: find_SomeD)
  have e: "faults w = [] \<Longrightarrow> \<not> fst (db_call w) \<and> \<not> fst (db_call (snd (db_call w)))
       \<and> \<not> fst (db_call (snd (db_call (snd (db_call w)))))"
    by (simp add: db_call_ok db_call_faults_nil)
  show ?thesis
    using assms k e
    by (auto simp: PreConsumeTokenQuota_def store_eqs Let_def find_map_key
        word_sless_alt word_sle_eq split: option.splits if_splits)
qed

text \<open>Witness for C3: an unlimited credential with nothing left and a cost of 3000.\<close>

theorem PreConsume_unlimited_witness:
  "fst (PreConsumeTokenQuota 0 1 3000
      (example_world\<lparr>token_table :=
         [example_token\<lparr>UnlimitedQuota := True, RemainQuota := 0\<rparr>]\<rparr>)) = Returned None
   \<and> token_table (snd (PreConsumeTokenQuota 0 1 3000
      (example_world\<lparr>token_table :=
         [example_token\<lparr>UnlimitedQuota := True, RemainQuota := 0\<rparr>]\<rparr>)))
     = [example_token\<lparr>UnlimitedQuota := True, RemainQuota := 0\<rparr>]
   \<and> find (\<lambda>a. account_id a = 7) (account_table (snd (PreConsumeTokenQuota 0 1 3000
      (example_world\<lparr>token_table :=
         [example_token\<lparr>UnlimitedQuota := True, RemainQuota := 0\<rparr>]\<rparr>))))
     = Some (example_account\<lparr>remaining := 2000, used := 3000\<rparr>)"
proof -
  have h: "(1 :: go_int) \<noteq> 0"
    "find (\<lambda>t. Id_tok t = 1) (token_table (example_world\<lparr>token_table :=
         [example_token\<lparr>UnlimitedQuota := True, RemainQuota := 0\<rparr>]\<rparr>))
       = Some (example_token\<lparr>UnlimitedQuota := True, RemainQuota := 0\<rparr>)"
    "UnlimitedQuota (example_token\<lparr>UnlimitedQuota := True, RemainQuota := 0\<rparr>)"
    by (simp_all add: example_defs)
  show ?thesis
    using PreConsume_unlimited [OF h, where a = example_account and quota = 3000 and thr = 0]
    by (simp add: example_defs word_sle_eq)
qed

section \<open>PostConsume\<close>











text \<open>
  Counterexample to C10 as stated: id 0 is the id of no credential and its lookup
  fails, but \<open>GetTokenById\<close> then returns a nil pointer, and \<open>PostConsume\<close> panics
  reading \<open>token.UserId\<close> through it: it does not go on with a zero-value credential,
  and no account is adjusted.
\<close>

theorem PostConsume_id_zero_panics:
  "find (\<lambda>t. Id_tok t = 0) (token_table example_world) = None
   \<and> PostConsumeTokenQuota 0 5 example_world = (Panic, example_world)"
  by (simp add: example_defs PostConsumeTokenQuota_def GetTokenById_def)

text \<open>
  C10, amended: for a non-zero \<open>tokenId\<close> whose credential is absent, or whose lookup
  fails in the store, \<open>PostConsumeTokenQuota\<close> neither panics nor returns
  \<open>NotFound\<close>: it goes on with the zero-value credential, and when the account update
  does not fail, the adjustment has been applied to the rows of account id 0.
\<close>

theorem PostConsume_ignores_lookup_error:
  assumes "tokenId \<noteq> 0"
    and "fst (db_call w) \<or> find (\<lambda>t. Id_tok t = tokenId) (token_table w) = None"
  shows "fst (PostConsumeTokenQuota tokenId quota w) \<noteq> Panic
       \<and> fst (PostConsumeTokenQuota tokenId quota w) \<noteq> Returned (Some NotFound)
       \<and> (\<not> fst (db_call (snd (db_call w))) \<longrightarrow>
            account_table (snd (PostConsumeTokenQuota tokenId quota w))
              = map (\<lambda>a. if account_id a = 0
                          then (if 0 <s quota
                                then a\<lparr>remaining := remaining a - quota,
                                       used := used a + quota\<rparr>
                                else a\<lparr>remaining := remaining a + (- quota),
                                       used := used a - (- quota)\<rparr>)
                          else a) (account_table w))"
  using assms
  by (auto simp: PostConsumeTokenQuota_def store_eqs zeroToken_def
      split: if_splits option.splits)

text \<open>Witness for C10: credential 2 is absent from a store that has an account with
  id 0, which is the account debited; credential 1 when its lookup fails.\<close>

theorem PostConsume_ignores_lookup_error_witness:
  "find (\<lambda>t. Id_tok t = 2) (token_table example_world) = None
   \<and> PostConsumeTokenQuota 2 5
        (example_world\<lparr>account_table := [\<lparr>account_id = 0, remaining = 50, used = 0\<rparr>]\<rparr>)
       = (Returned None,
          example_world\<lparr>account_table := [\<lparr>account_id = 0, remaining = 45, used = 5\<rparr>]\<rparr>)
   \<and> fst (PostConsumeTokenQuota 1 5 (example_world\<lparr>faults := [True]\<rparr>)) = Returned None
   \<and> map (\<lambda>t. (RemainQuota t, UsedQuota t))
        (token_table (snd (PostConsumeTokenQuota 1 5 (example_world\<lparr>faults := [True]\<rparr>))))
       = [(995, 5)]
   \<and> account_table (snd (PostConsumeTokenQuota 1 5 (example_world\<lparr>faults := [True]\<rparr>)))
       = [example_account]"
proof -
  have h: "(2 :: go_int) \<noteq> 0"
    "fst (db_call (example_world\<lparr>account_table :=
            [\<lparr>account_id = 0, remaining = 50, used = 0\<rparr>]\<rparr>))
     \<or> find (\<lambda>t. Id_tok t = 2) (token_table (example_world\<lparr>account_table :=
            [\<lparr>account_id = 0, remaining = 50, used = 0\<rparr>]\<rparr>)) = None"
    by (simp_all add: example_defs)
  have g: "(1 :: go_int) \<noteq> 0"
    "fst (db_call (example_world\<lparr>faults := [True]\<rparr>))
     \<or> find (\<lambda>t. Id_tok t = 1) (token_table (example_world\<lparr>faults := [True]\<rparr>)) = None"
    by (simp_all add: example_defs db_call_def)
  show ?thesis
    using PostConsume_ignores_lookup_error [OF h, where quota = 5]
      PostConsume_ignores_lookup_error [OF g, where quota = 5]
    by (simp add: example_defs PostConsumeTokenQuota_def store_defs word_sless_alt)
qed

section \<open>Validation of a key\<close>

lemma CacheGetTokenByKey_eq:
  "CacheGetTokenByKey key w =
     (if fst (db_call w) then ((None, Some StoreError), snd (db_call w))
      else (case find (\<lambda>t. Key t = key) (token_table w) of
              None \<Rightarrow> ((None, Some NotFound), snd (db_call w))
            | Some row \<Rightarrow> ((Some row, None), snd (db_call w))))"
  by (simp add: CacheGetTokenByKey_def Let_def case_prod_beta)

lemma SelectUpdate_eq:
  "SelectUpdate token w =
     (if fst (db_call w) then (Some StoreError, snd (db_call w))
      else (None, (snd (db_call w))\<lparr>token_table :=
              map (\<lambda>t. if Id_tok t = Id_tok token
                        then t\<lparr>AccessedTime := AccessedTime token, Status := Status token\<rparr>
                        else t)
                (token_table w)\<rparr>))"
  by (simp add: SelectUpdate_def Let_def case_prod_beta)

text \<open>
  Counterexample to C9 as stated: a credential that is found and has expired (it
  expired at 5, and it is 10 now) but whose status is Disabled.  Validation denies with
  the error for an unusable status, not with the error for an expired token, and makes
  one store call only, the lookup: it does not try to write the status Expired.
\<close>

theorem Validate_disabled_expired_not_persisted:
  "ExpiredTime (example_token\<lparr>Status := TokenStatusDisabled, ExpiredTime := 5\<rparr>) \<noteq> - 1
   \<and> ExpiredTime (example_token\<lparr>Status := TokenStatusDisabled, ExpiredTime := 5\<rparr>) <s 10
   \<and> ValidateUserToken 10 ''sk-1''
        (example_world\<lparr>token_table :=
           [example_token\<lparr>Status := TokenStatusDisabled, ExpiredTime := 5\<rparr>],
           faults := [False, False]\<rparr>)
       = (Returned (None, Some StatusUnavailable),
          example_world\<lparr>token_table :=
             [example_token\<lparr>Status := TokenStatusDisabled, ExpiredTime := 5\<rparr>],
             faults := [False]\<rparr>)"
  by (simp add: example_defs ValidateUserToken_def store_defs word_sless_alt)

text \<open>
  C9, amended: for every non-empty key whose credential is found with status Enabled
  and is expired (\<open>expiresAt \<noteq> -1\<close> and in the past) or exhausted (not unlimited and
  \<open>remaining \<le> 0\<close>), validation denies the request, with the error Expired when the
  credential is expired and the error Exhausted otherwise, and tries to write the
  status Expired or Exhausted to the credential's row.  When that write fails, the
  failure is logged, the table is as before, and the denial is returned all the same.
\<close>

theorem Validate_denies_and_persists:
  assumes "key \<noteq> []"
    and "\<not> fst (db_call w)"
    and "find (\<lambda>t. Key t = key) (token_table w) = Some t"
    and "Status t = TokenStatusEnabled"
    and "(ExpiredTime t \<noteq> - 1 \<and> ExpiredTime t <s now)
         \<or> (\<not> UnlimitedQuota t \<and> RemainQuota t \<le>s 0)"
  shows "fst (ValidateUserToken now key w)
           = Returned (None, Some (if ExpiredTime t \<noteq> - 1 \<and> ExpiredTime t <s now
                                   then Expired else Exhausted))
       \<and> (if fst (db_call (snd (db_call w)))
           then token_table (snd (ValidateUserToken now key w)) = token_table w
              \<and> syslog (snd (ValidateUserToken now key w))
                  = syslog w @ [FailedUpdateStatus StoreError]
           else token_table (snd (ValidateUserToken now key w))
                  = map (\<lambda>r. if Id_tok r = Id_tok t
                              then r\<lparr>AccessedTime := AccessedTime t,
                                     Status := (if ExpiredTime t \<noteq> - 1 \<and> ExpiredTime t <s now
                                                then TokenStatusExpired
                                                else TokenStatusExhausted)\<rparr>
                              else r) (token_table w)
              \<and> syslog (snd (ValidateUserToken now key w)) = syslog w)"
  using assms
  by (auto simp: ValidateUserToken_def CacheGetTokenByKey_eq SelectUpdate_eq)

text \<open>Witness for C9: the example's credential, expired at 5 when it is 10 now, once
  with a status write that succeeds and once with one that fails; and the credential
  with nothing left.\<close>

theorem Validate_denies_and_persists_witness:
  "ValidateUserToken 10 ''sk-1''
      (example_world\<lparr>token_table := [example_token\<lparr>ExpiredTime := 5\<rparr>]\<rparr>)
     = (Returned (None, Some Expired),
        example_world\<lparr>token_table :=
          [example_token\<lparr>ExpiredTime := 5, Status := TokenStatusExpired\<rparr>]\<rparr>)
   \<and> ValidateUserToken 10 ''sk-1''
      (example_world\<lparr>token_table := [example_token\<lparr>ExpiredTime := 5\<rparr>],
         faults := [False, True]\<rparr>)
     = (Returned (None, Some Expired),
        example_world\<lparr>token_table := [example_token\<lparr>ExpiredTime := 5\<rparr>],
          syslog := [FailedUpdateStatus StoreError]\<rparr>)
   \<and> ValidateUserToken 10 ''sk-1''
      (example_world\<lparr>token_table := [example_token\<lparr>RemainQuota := 0\<rparr>]\<rparr>)
     = (Returned (None, Some Exhausted),
        example_world\<lparr>token_table :=
          [example_token\<lparr>RemainQuota := 0, Status := TokenStatusExhausted\<rparr>]\<rparr>)"
proof -
  let ?t = "example_token\<lparr>ExpiredTime := 5\<rparr>"
  let ?w = "example_world\<lparr>token_table := [?t], faults := [False, True]\<rparr>"
  have h: "''sk-1'' \<noteq> []" "\<not> fst (db_call ?w)"
    "find (\<lambda>t. Key t = ''sk-1'') (token_table ?w) = Some ?t"
    "Status ?t = TokenStatusEnabled"
    "(ExpiredTime ?t \<noteq> - 1 \<and> ExpiredTime ?t <s 10)
       \<or> (\<not> UnlimitedQuota ?t \<and> RemainQuota ?t \<le>s 0)"
    by (simp_all add: example_defs db_call_def word_sless_alt)
  show ?thesis
    using Validate_denies_and_persists [OF h]
    by (simp add: example_defs ValidateUserToken_def store_defs word_sless_alt word_sle_eq)
qed

section \<open>Aggregator, flusher and batch persister\<close>

text \<open>
  C6, at a failing input: the aggregator holds no cell and the event (credential 1,
  delta 5) is taken from the channel.  The consumer stores a fresh cell holding 0 and
  then panics in the type assertion on the nil value that \<open>Load\<close> returned: the
  goroutine faults and the delta 5 is in no cell.  The claim asks for the cell to be
  created and the delta accumulated without a fault.  (On a cell that exists and holds
  2, the same event leaves 7, as the claim says.)
\<close>

theorem record_delta_first_touch_panics:
  "record_delta example_entry [] = (Panic, [(1, PInt32 0)])
   \<and> record_delta example_entry [(1, PInt32 2)] = (Returned (), [(1, PInt32 7)])"
  by (simp add: record_delta_def Load_def example_defs)

text \<open>
  C7, at a failing input: a batch of one entry whose store update fails, under the
  schedule in which the caller runs to \<open>close(failChan)\<close>, the collector sees the
  closed empty channel and closes \<open>completeChan\<close>, and the caller returns, all before
  the worker has run.  The caller returns the empty list; the worker then fails its
  update and panics sending on the closed channel.  The claim asks that the call waits
  for the workers and returns exactly the failed entries, with no hard error.  (Under
  the schedule in which the worker runs before the caller closes the channel, the same
  batch returns the failed entry: the result depends on the schedule.)
\<close>

theorem batch_returns_before_failed_worker:
  "map_option (\<lambda>s. (pc s, workers s))
     (run [example_entry] [Main, Main, Main, Main, Main, Collector, Main]
        (batch_init (example_world\<lparr>faults := [True]\<rparr>)))
     = Some (Done [], [Update example_entry])
   \<and> map_option (\<lambda>s. (pc s, workers s, syslog (store s)))
     (run [example_entry]
        [Main, Main, Main, Main, Main, Collector, Main, Worker 0, Worker 0]
        (batch_init (example_world\<lparr>faults := [True]\<rparr>)))
     = Some (Done [], [Crashed], [UpdateTokenFail example_entry StoreError])
   \<and> map_option (\<lambda>s. (pc s, workers s))
     (run [example_entry]
        [Main, Main, Worker 0, Worker 0, Main, Main, Main, Collector, Collector, Main]
        (batch_init (example_world\<lparr>faults := [True]\<rparr>)))
     = Some (Done [example_entry], [Finished])"
  by (simp add: batch_init_def main_step_def collector_step_def worker_step_def
      update_entry_def DecreaseTokenQuota_def db_call_def example_defs word_sless_alt)

text \<open>
  C8, at a failing input: the aggregator holds the cell (credential 1, delta 5) and the
  persister reports the drained entry as failed.  The tick stores the entry back as a
  pointer to an \<open>int\<close>, so the next drain panics in its assertion to \<open>*int32\<close>, and
  so does the consumer on the next event for the credential: the delta takes part in no
  later drain.  The store is also an overwrite: a cell holding a delta of 3 recorded
  for the credential after the drain is replaced, not added to.
\<close>

theorem requeue_breaks_next_drain:
  "flush_cycle (\<lambda>drained. drained) [(1, PInt32 5)] = (Returned (), [(1, PInt 5)])
   \<and> drain [(1, PInt 5)] = (Panic, [(1, PInt 5)])
   \<and> record_delta example_entry [(1, PInt 5)] = (Panic, [(1, PInt 5)])
   \<and> requeue [example_entry] [(1, PInt32 3)] = [(1, PInt 5)]"
  by (simp add: flush_cycle_def drain_def requeue_def Delete_def record_delta_def Load_def
      example_defs)

end
